theory Spec2Isabelle
  imports Main "HOL-Library.AList" "HOL-Library.Sublist"
begin

section \<open>Values, records and result envelopes\<close>

text \<open>
  The module \<^verbatim>\<open>napalm_network.py\<close> works on Python dictionaries. A row of a device
  table (an ARP entry, a MAC entry, an LLDP neighbour) is a dictionary from field names
  to scalar values; it is modelled as an association list, whose order is the
  dictionary's iteration order. Field values and filter arguments are the scalars
  \<open>None\<close>, booleans, integers and strings. Floating point fields (\<open>age\<close>,
  \<open>last_move\<close>) are outside the model.
\<close>

datatype pyval = PNone | PBool bool | PInt int | PStr string

type_synonym row = "(string \<times> pyval) list"

text \<open>
  Python's \<^verbatim>\<open>==\<close> on these scalars: \<open>bool\<close> is a subclass of \<open>int\<close>, so
  \<^verbatim>\<open>True == 1\<close> and \<^verbatim>\<open>False == 0\<close> hold; values of different kinds are
  otherwise unequal.
\<close>

fun py_eq :: "pyval \<Rightarrow> pyval \<Rightarrow> bool" where
  "py_eq PNone PNone = True"
| "py_eq (PStr a) (PStr b) = (a = b)"
| "py_eq (PBool a) (PBool b) = (a = b)"
| "py_eq (PInt a) (PInt b) = (a = b)"
| "py_eq (PBool a) (PInt b) = ((if a then 1 else 0) = b)"
| "py_eq (PInt a) (PBool b) = (a = (if b then 1 else 0))"
| "py_eq _ _ = False"

text \<open>Truthiness, as \<^verbatim>\<open>if x:\<close> tests it.\<close>

fun py_truthy :: "pyval \<Rightarrow> bool" where
  "py_truthy PNone = False"
| "py_truthy (PBool b) = b"
| "py_truthy (PInt i) = (i \<noteq> 0)"
| "py_truthy (PStr s) = (s \<noteq> [])"

text \<open>\<^verbatim>\<open>isinstance(x, int)\<close>: true of integers and of booleans.\<close>

fun py_isinstance_int :: "pyval \<Rightarrow> bool" where
  "py_isinstance_int (PInt i) = True"
| "py_isinstance_int (PBool b) = True"
| "py_isinstance_int _ = False"

text \<open>\<^verbatim>\<open>dictionary.get(key)\<close>: the value, or \<open>None\<close> when the key is absent.\<close>

definition dict_get :: "row \<Rightarrow> string \<Rightarrow> pyval" where
  "dict_get dictionary key = (case map_of dictionary key of None \<Rightarrow> PNone | Some v \<Rightarrow> v)"

section \<open>Helper functions\<close>

text \<open>
  \<^verbatim>\<open>_filter_list(input_list, search_key, search_value)\<close>: the loop appends each
  matching dictionary to \<open>output_list\<close>. (Isabelle names cannot start with an
  underscore, so the leading underscore of the private helpers is dropped.)
\<close>

fun filter_list_loop :: "row list \<Rightarrow> string \<Rightarrow> pyval \<Rightarrow> row list \<Rightarrow> row list" where
  "filter_list_loop [] search_key search_value output_list = output_list"
| "filter_list_loop (dictionary # rest) search_key search_value output_list =
     filter_list_loop rest search_key search_value
       (if py_eq (dict_get dictionary search_key) search_value
        then output_list @ [dictionary] else output_list)"

definition filter_list :: "row list \<Rightarrow> string \<Rightarrow> pyval \<Rightarrow> row list" where
  "filter_list input_list search_key search_value =
     filter_list_loop input_list search_key search_value []"

text \<open>
  \<^verbatim>\<open>_filter_dict(input_dict, search_key, search_value)\<close>: \<open>input_dict\<close> maps a group
  name to a list of rows. It is an association list in iteration order;
  \<^verbatim>\<open>output_dict[key] = ...\<close> is \<open>AList.update\<close>, which appends a new key at the
  end and overwrites an existing one in place.
\<close>

fun filter_dict_loop ::
  "(string \<times> row list) list \<Rightarrow> string \<Rightarrow> pyval \<Rightarrow> (string \<times> row list) list
    \<Rightarrow> (string \<times> row list) list" where
  "filter_dict_loop [] search_key search_value output_dict = output_dict"
| "filter_dict_loop ((key, key_list) # rest) search_key search_value output_dict =
     (let key_list_filtered = filter_list key_list search_key search_value
      in filter_dict_loop rest search_key search_value
           (if key_list_filtered \<noteq> []
            then AList.update key key_list_filtered output_dict else output_dict))"

definition filter_dict ::
  "(string \<times> row list) list \<Rightarrow> string \<Rightarrow> pyval \<Rightarrow> (string \<times> row list) list" where
  "filter_dict input_dict search_key search_value =
     filter_dict_loop input_dict search_key search_value []"

section \<open>The device driver\<close>

text \<open>
  Every driver call returns a dictionary with the keys \<open>result\<close>, \<open>out\<close> and
  \<open>comment\<close>; \<open>result\<close> is a boolean and \<open>comment\<close> a string, empty on success.
  \<open>out\<close> is optional: \<open>None\<close> stands for an absent key as well as for
  the Python value \<open>None\<close>, which \<^verbatim>\<open>.get('out')\<close> does not tell apart.
\<close>

record 'a proxy_output =
  result :: bool
  out :: "'a option"
  comment :: string

text \<open>
  \<^verbatim>\<open>__proxy__['napalm.call'](method, **params)\<close> runs a method of the NAPALM driver
  on the device. The proxy is not part of this module, so the driver is a parameter: a
  function from the method name and the device state to the envelope and the new state.
  The device state is paired with the list of the methods called so far, in order.
\<close>

type_synonym ('s, 'a) driver = "string \<Rightarrow> 's \<Rightarrow> 'a proxy_output \<times> 's"

type_synonym 's device = "'s \<times> string list"

definition napalm_call :: "('s, 'a) driver \<Rightarrow> string \<Rightarrow> 's device \<Rightarrow> 'a proxy_output \<times> 's device" where
  "napalm_call drv method st =
     (case st of (s, calls) \<Rightarrow>
        (case drv method s of (r, s') \<Rightarrow> (r, (s', calls @ [method]))))"

definition commit :: "('s, 'a) driver \<Rightarrow> 's device \<Rightarrow> 'a proxy_output \<times> 's device" where
  "commit drv = napalm_call drv ''commit_config''"

definition discard_config :: "('s, 'a) driver \<Rightarrow> 's device \<Rightarrow> 'a proxy_output \<times> 's device" where
  "discard_config drv = napalm_call drv ''discard_config''"

definition compare_config :: "('s, 'a) driver \<Rightarrow> 's device \<Rightarrow> 'a proxy_output \<times> 's device" where
  "compare_config drv = napalm_call drv ''compare_config''"

definition rollback :: "('s, 'a) driver \<Rightarrow> 's device \<Rightarrow> 'a proxy_output \<times> 's device" where
  "rollback drv = napalm_call drv ''rollback''"

section \<open>The configuration transaction\<close>

text \<open>
  \<^verbatim>\<open>_config_logic\<close> extends the envelope of the staging call with the keys
  \<open>already_configured\<close> and \<open>diff\<close>. The key \<open>diff\<close> is absent (\<open>None\<close>) until
  the comparison succeeds; it then holds the comparison's \<open>out\<close>, which may be the
  Python value \<open>None\<close> (\<open>Some None\<close>).
\<close>

record 'a loaded_result = "'a proxy_output" +
  already_configured :: bool
  diff :: "string option option"

datatype py_error = TypeError | AttributeError

text \<open>
  \<^verbatim>\<open>len(loaded_result.get('diff', ''))\<close>: an absent key reads as the empty string, and
  \<^verbatim>\<open>len(None)\<close> raises \<open>TypeError\<close>.
\<close>

definition diff_len :: "'a loaded_result \<Rightarrow> py_error + nat" where
  "diff_len loaded_result =
     (case diff loaded_result of
        None \<Rightarrow> Inr 0
      | Some None \<Rightarrow> Inl TypeError
      | Some (Some d) \<Rightarrow> Inr (length d))"

definition config_logic ::
  "('s, string) driver \<Rightarrow> 'o proxy_output \<Rightarrow> bool \<Rightarrow> bool \<Rightarrow> 's device
    \<Rightarrow> (py_error + 'o loaded_result) \<times> 's device" where
  "config_logic drv loaded test commit_config st0 =
     (let loaded_result =
            \<lparr>result = result loaded, out = out loaded, comment = comment loaded,
             already_configured = False, diff = None\<rparr>
      in case compare_config drv st0 of (compare_res, st1) \<Rightarrow>
      let loaded_result =
            (if result compare_res
             then loaded_result\<lparr>diff := Some (out compare_res), out := None\<rparr>
             else loaded_result);
          loaded_res = result loaded_result
      in
      if \<not> loaded_res \<or> test then
        (let loaded_result =
               (if comment loaded_result \<noteq> []
                then loaded_result\<lparr>comment := comment loaded_result @ [CHR 0x0A]\<rparr>
                else loaded_result)
         in case diff_len loaded_result of
              Inl e \<Rightarrow> (Inl e, st1)
            | Inr n \<Rightarrow>
         let loaded_result =
               (if \<not> n > 0 then loaded_result\<lparr>already_configured := True\<rparr>
                else loaded_result)
         in case discard_config drv st1 of (discarded, st2) \<Rightarrow>
         if \<not> result discarded then
           (Inr (loaded_result
                  \<lparr>comment := comment loaded_result @
                     (if comment discarded \<noteq> [] then comment discarded
                      else ''Unable to discard config.''),
                   result := False\<rparr>), st2)
         else
           (Inr (loaded_result
                  \<lparr>comment := comment loaded_result @ ''Configuration discarded.''\<rparr>), st2))
      else if \<not> test \<and> commit_config then
        (case diff_len loaded_result of
           Inl e \<Rightarrow> (Inl e, st1)
         | Inr n \<Rightarrow>
         if n > 0 then
           (case commit drv st1 of (commit_res, st2) \<Rightarrow>
            if \<not> result commit_res then
              (let loaded_result = loaded_result
                     \<lparr>comment := comment loaded_result @
                        (if comment commit_res \<noteq> [] then comment commit_res
                         else ''Unable to commit config.''),
                      result := False\<rparr>
               in case discard_config drv st2 of (discarded, st3) \<Rightarrow>
               let loaded_result = loaded_result
                     \<lparr>comment := comment loaded_result @ [CHR 0x0A]\<rparr>;
                   loaded_result = loaded_result
                     \<lparr>comment := comment loaded_result @
                        (if comment discarded \<noteq> [] then comment discarded
                         else ''Unable to discard config.'')\<rparr>
               in (Inr loaded_result, st3))
            else (Inr loaded_result, st2))
         else
           (case discard_config drv st1 of (discarded, st2) \<Rightarrow>
            if \<not> result discarded then
              (Inr (loaded_result
                     \<lparr>comment := comment loaded_result @
                        (if comment discarded \<noteq> [] then comment discarded
                         else ''Unable to discard config.''),
                      result := False\<rparr>), st2)
            else
              (Inr (loaded_result
                     \<lparr>already_configured := True, comment := ''Already configured.''\<rparr>), st2)))
      else (Inr loaded_result, st1))"

section \<open>Drift detection and reconciliation\<close>

text \<open>
  \<^verbatim>\<open>config_changed\<close> and \<^verbatim>\<open>config_control\<close> return a pair of a flag and a text.
  \<^verbatim>\<open>try_compare.get('out')\<close> is tested for truthiness: a missing, \<open>None\<close> or empty
  difference is false.
\<close>

definition config_changed :: "('s, string) driver \<Rightarrow> 's device \<Rightarrow> (bool \<times> string) \<times> 's device" where
  "config_changed drv st0 =
     (case compare_config drv st0 of (try_compare, st1) \<Rightarrow>
        if result try_compare then
          (if out try_compare \<noteq> None \<and> out try_compare \<noteq> Some []
           then ((True, []), st1)
           else ((False, ''Configuration was not changed on the device.''), st1))
        else ((False, comment try_compare), st1))"

definition config_control :: "('s, string) driver \<Rightarrow> 's device \<Rightarrow> (bool \<times> string) \<times> 's device" where
  "config_control drv st0 =
     (case config_changed drv st0 of ((changed, not_changed_reason), st1) \<Rightarrow>
        if \<not> changed then ((changed, not_changed_reason), st1)
        else
          (case commit drv st1 of (try_commit, st2) \<Rightarrow>
             if \<not> result try_commit then
               (let comment0 = ''Unable to commit the changes: '' @ comment try_commit @ ''.''
                      @ [CHR 0x0A] @ ''        Will try to rollback now!''
                in case rollback drv st2 of (try_rollback, st3) \<Rightarrow>
                   if \<not> result try_rollback then
                     ((False, comment0 @ [CHR 0x0A] @ ''Cannot rollback! ''
                         @ comment try_rollback), st3)
                   else ((False, comment0), st3))
             else ((True, []), st2)))"

section \<open>Table getters with filters\<close>

text \<open>
  \<^verbatim>\<open>arp\<close>, \<^verbatim>\<open>mac\<close> and \<^verbatim>\<open>lldp\<close> call a getter and filter its \<open>out\<close>. The filter
  arguments of \<^verbatim>\<open>arp\<close> and \<^verbatim>\<open>mac\<close> are Python values tested for truthiness. When
  the call succeeded with \<open>out\<close> being \<open>None\<close>, a requested filter iterates over
  \<open>None\<close> and raises \<open>TypeError\<close>; with no filter requested \<open>out\<close> is written back
  as it is.
\<close>

definition arp ::
  "('s, row list) driver \<Rightarrow> pyval \<Rightarrow> pyval \<Rightarrow> pyval \<Rightarrow> 's device
    \<Rightarrow> (py_error + row list proxy_output) \<times> 's device" where
  "arp drv interface ipaddr macaddr st0 =
     (case napalm_call drv ''get_arp_table'' st0 of (proxy_output, st1) \<Rightarrow>
        if \<not> result proxy_output then (Inr proxy_output, st1)
        else
          (case out proxy_output of
             None \<Rightarrow>
               if py_truthy interface \<or> py_truthy ipaddr \<or> py_truthy macaddr
               then (Inl TypeError, st1)
               else (Inr (proxy_output\<lparr>out := None\<rparr>), st1)
           | Some arp_table \<Rightarrow>
               let arp_table =
                     (if py_truthy interface
                      then filter_list arp_table ''interface'' interface else arp_table);
                   arp_table =
                     (if py_truthy ipaddr
                      then filter_list arp_table ''ip'' ipaddr else arp_table);
                   arp_table =
                     (if py_truthy macaddr
                      then filter_list arp_table ''mac'' macaddr else arp_table)
               in (Inr (proxy_output\<lparr>out := Some arp_table\<rparr>), st1)))"

definition mac ::
  "('s, row list) driver \<Rightarrow> pyval \<Rightarrow> pyval \<Rightarrow> pyval \<Rightarrow> 's device
    \<Rightarrow> (py_error + row list proxy_output) \<times> 's device" where
  "mac drv address interface vlan st0 =
     (case napalm_call drv ''get_mac_address_table'' st0 of (proxy_output, st1) \<Rightarrow>
        if \<not> result proxy_output then (Inr proxy_output, st1)
        else
          (case out proxy_output of
             None \<Rightarrow>
               if (py_truthy vlan \<and> py_isinstance_int vlan) \<or> py_truthy address
                  \<or> py_truthy interface
               then (Inl TypeError, st1)
               else (Inr (proxy_output\<lparr>out := None\<rparr>), st1)
           | Some mac_address_table \<Rightarrow>
               let mac_address_table =
                     (if py_truthy vlan \<and> py_isinstance_int vlan
                      then filter_list mac_address_table ''vlan'' vlan
                      else mac_address_table);
                   mac_address_table =
                     (if py_truthy address
                      then filter_list mac_address_table ''mac'' address
                      else mac_address_table);
                   mac_address_table =
                     (if py_truthy interface
                      then filter_list mac_address_table ''interface'' interface
                      else mac_address_table)
               in (Inr (proxy_output\<lparr>out := Some mac_address_table\<rparr>), st1)))"

text \<open>
  The LLDP table maps an interface name to its list of neighbours. \<^verbatim>\<open>lldp\<close> builds
  \<^verbatim>\<open>{interface: lldp_neighbors.get(interface)}\<close>, whose value is \<open>None\<close> for an
  interface the table does not have; the values of the table are therefore optional.
  The interface is a dictionary key, a string, and is false when empty. A
  \<^verbatim>\<open>.get\<close> on a table that is \<open>None\<close> raises \<open>AttributeError\<close>.
\<close>

type_synonym lldp_table = "(string \<times> row list option) list"

definition lldp ::
  "('s, lldp_table) driver \<Rightarrow> string \<Rightarrow> 's device
    \<Rightarrow> (py_error + lldp_table proxy_output) \<times> 's device" where
  "lldp drv interface st0 =
     (case napalm_call drv ''get_lldp_neighbors_detail'' st0 of (proxy_output, st1) \<Rightarrow>
        if \<not> result proxy_output then (Inr proxy_output, st1)
        else
          (case out proxy_output of
             None \<Rightarrow>
               if interface \<noteq> [] then (Inl AttributeError, st1)
               else (Inr (proxy_output\<lparr>out := None\<rparr>), st1)
           | Some lldp_neighbors \<Rightarrow>
               let lldp_neighbors =
                     (if interface \<noteq> []
                      then [(interface,
                             (case map_of lldp_neighbors interface of
                                None \<Rightarrow> None | Some v \<Rightarrow> v))]
                      else lldp_neighbors)
               in (Inr (proxy_output\<lparr>out := Some lldp_neighbors\<rparr>), st1)))"

section \<open>Example drivers\<close>

text \<open>
  A scripted driver answers each method with a fixed envelope and has no state of its
  own; it serves to run the functions above on concrete inputs.
\<close>

definition scripted :: "(string \<times> 'a proxy_output) list \<Rightarrow> (unit, 'a) driver" where
  "scripted answers method s =
     (case map_of answers method of
        Some r \<Rightarrow> (r, s)
      | None \<Rightarrow> (\<lparr>result = False, out = None, comment = ''Cannot execute''\<rparr>, s))"

section \<open>Properties of the helper functions\<close>

lemma filter_list_loop_eq:
  "filter_list_loop xs k v acc = acc @ filter (\<lambda>d. py_eq (dict_get d k) v) xs"
  by (induction xs arbitrary: acc) simp_all

lemma filter_list_eq:
  "filter_list xs k v = filter (\<lambda>d. py_eq (dict_get d k) v) xs"
  by (simp add: filter_list_def filter_list_loop_eq)

lemma py_eq_PNone_left: "py_eq PNone v \<longleftrightarrow> v = PNone"
  by (cases v) simp_all

lemma dict_get_absent: "map_of d k = None \<Longrightarrow> dict_get d k = PNone"
  by (simp add: dict_get_def)

text \<open>
  Claim C8, as the code has it. \<^verbatim>\<open>_filter_list\<close> returns, in the original order,
  exactly the rows \<open>d\<close> for which \<^verbatim>\<open>d.get(key) == value\<close> holds in Python: an absent
  field reads as \<open>None\<close>, and \<open>True\<close>/\<open>False\<close> equal \<open>1\<close>/\<open>0\<close>. With a key
  absent from all rows and a value other than \<open>None\<close> the result is empty; with a
  value matching every row the result is the input list itself.
\<close>

theorem filter_list_matches:
  "filter_list xs k v = filter (\<lambda>d. py_eq (dict_get d k) v) xs
   \<and> (v \<noteq> PNone \<and> (\<forall>d \<in> set xs. map_of d k = None) \<longrightarrow> filter_list xs k v = [])
   \<and> ((\<forall>d \<in> set xs. py_eq (dict_get d k) v) \<longrightarrow> filter_list xs k v = xs)"
proof (intro conjI impI)
  show "filter_list xs k v = filter (\<lambda>d. py_eq (dict_get d k) v) xs"
    by (rule filter_list_eq)
next
  assume a: "v \<noteq> PNone \<and> (\<forall>d \<in> set xs. map_of d k = None)"
  then have "\<forall>d \<in> set xs. \<not> py_eq (dict_get d k) v"
    by (simp add: dict_get_absent py_eq_PNone_left)
  then show "filter_list xs k v = []"
    by (simp add: filter_list_eq)
next
  assume "\<forall>d \<in> set xs. py_eq (dict_get d k) v"
  then show "filter_list xs k v = xs"
    by (simp add: filter_list_eq)
qed

text \<open>
  The three parts at concrete tables: a filter that selects one row of two, a key that
  no row has, and a value that every row has.
\<close>

theorem filter_list_matches_witness:
  "filter_list [[(''interface'', PStr ''eth0''), (''mac'', PStr ''aa:bb'')],
                [(''interface'', PStr ''eth1''), (''mac'', PStr ''cc:dd'')]]
               ''interface'' (PStr ''eth1'')
     = [[(''interface'', PStr ''eth1''), (''mac'', PStr ''cc:dd'')]]
   \<and> filter_list [[(''interface'', PStr ''eth0''), (''mac'', PStr ''aa:bb'')],
                  [(''interface'', PStr ''eth1''), (''mac'', PStr ''cc:dd'')]]
                 ''vlan'' (PInt 42) = []
   \<and> filter_list [[(''interface'', PStr ''eth0''), (''vlan'', PInt 1)],
                  [(''interface'', PStr ''eth1''), (''vlan'', PInt 1)]]
                 ''vlan'' (PInt 1)
     = [[(''interface'', PStr ''eth0''), (''vlan'', PInt 1)],
        [(''interface'', PStr ''eth1''), (''vlan'', PInt 1)]]"
  using
    filter_list_matches [of "[[(''interface'', PStr ''eth0''), (''mac'', PStr ''aa:bb'')],
                [(''interface'', PStr ''eth1''), (''mac'', PStr ''cc:dd'')]]"
               "''interface''" "PStr ''eth1''"]
    filter_list_matches [of "[[(''interface'', PStr ''eth0''), (''mac'', PStr ''aa:bb'')],
                [(''interface'', PStr ''eth1''), (''mac'', PStr ''cc:dd'')]]"
               "''vlan''" "PInt 42"]
    filter_list_matches [of "[[(''interface'', PStr ''eth0''), (''vlan'', PInt 1)],
                  [(''interface'', PStr ''eth1''), (''vlan'', PInt 1)]]"
               "''vlan''" "PInt 1"]
  by (simp add: dict_get_def)

text \<open>
  The claim as stated fails for the value \<open>None\<close>: the key \<open>interface\<close> is absent
  from the only row, \<^verbatim>\<open>.get\<close> reads it as \<open>None\<close>, and the row is returned.
\<close>

theorem filter_list_none_counterexample:
  "map_of [(''mac'', PStr ''aa:bb'')] ''interface'' = None
   \<and> filter_list [[(''mac'', PStr ''aa:bb'')]] ''interface'' PNone
       = [[(''mac'', PStr ''aa:bb'')]]"
  by (simp add: filter_list_def dict_get_def)

lemma update_fresh: "key \<notin> fst ` set al \<Longrightarrow> AList.update key v al = al @ [(key, v)]"
  by (induction al) auto

lemma filter_dict_loop_eq:
  "distinct (map fst acc @ map fst d) \<Longrightarrow>
   filter_dict_loop d k v acc =
     acc @ filter (\<lambda>(g, l). l \<noteq> []) (map (\<lambda>(g, l). (g, filter_list l k v)) d)"
proof (induction d arbitrary: acc)
  case Nil
  then show ?case by simp
next
  case (Cons p d)
  obtain g l where p: "p = (g, l)" by (cases p)
  show ?case
  proof (cases "filter_list l k v = []")
    case True
    with Cons.prems p have "distinct (map fst acc @ map fst d)" by simp
    from Cons.IH [OF this] True p show ?thesis by simp
  next
    case False
    from Cons.prems p have fresh: "g \<notin> fst ` set acc" by auto
    from Cons.prems p have "distinct (map fst (acc @ [(g, filter_list l k v)]) @ map fst d)"
      by auto
    from Cons.IH [OF this] False p fresh show ?thesis
      by (simp add: update_fresh)
  qed
qed

lemma filter_dict_eq:
  "distinct (map fst d) \<Longrightarrow>
   filter_dict d k v = filter (\<lambda>(g, l). l \<noteq> []) (map (\<lambda>(g, l). (g, filter_list l k v)) d)"
  using filter_dict_loop_eq [of "[]" d k v] by (simp add: filter_dict_def)

lemma keys_of_groups:
  "map fst (filter (\<lambda>(g, l). l \<noteq> []) (map (\<lambda>(g, l). (g, F l)) d))
     = map fst (filter (\<lambda>(g, l). F l \<noteq> []) d)"
  by (induction d) auto

lemma map_of_groups_absent:
  "g \<notin> fst ` set d \<Longrightarrow>
   map_of (filter (\<lambda>(g, l). l \<noteq> []) (map (\<lambda>(g, l). (g, F l)) d)) g = None"
  by (induction d) auto

lemma map_of_groups:
  "distinct (map fst d) \<Longrightarrow>
   map_of (filter (\<lambda>(g, l). l \<noteq> []) (map (\<lambda>(g, l). (g, F l)) d)) g =
     (case map_of d g of None \<Rightarrow> None
      | Some l \<Rightarrow> if F l = [] then None else Some (F l))"
proof (induction d)
  case Nil
  then show ?case by simp
next
  case (Cons p d)
  obtain h l where p: "p = (h, l)" by (cases p)
  with Cons.prems have h: "h \<notin> fst ` set d" and dd: "distinct (map fst d)" by auto
  show ?case
  proof (cases "h = g")
    case True
    with h p show ?thesis by (simp add: map_of_groups_absent)
  next
    case False
    with p Cons.IH [OF dd] show ?thesis by simp
  qed
qed

text \<open>
  Claim C9. For a dictionary of groups (an association list with distinct keys, in
  iteration order), \<^verbatim>\<open>_filter_dict\<close> maps each surviving key to \<^verbatim>\<open>_filter_list\<close> of
  its list; a group whose filtered list is empty is not a key of the result; the keys
  of the result are the keys of the groups that have a match, in the order of the input,
  so their number is the number of such groups.
\<close>

theorem filter_dict_groups:
  assumes "distinct (map fst input_dict)"
  shows "map_of (filter_dict input_dict k v) g =
           (case map_of input_dict g of None \<Rightarrow> None
            | Some key_list \<Rightarrow>
                if filter_list key_list k v = [] then None
                else Some (filter_list key_list k v))
       \<and> map fst (filter_dict input_dict k v) =
           map fst (filter (\<lambda>(g, key_list). filter_list key_list k v \<noteq> []) input_dict)
       \<and> length (filter_dict input_dict k v) =
           length (filter (\<lambda>(g, key_list). filter_list key_list k v \<noteq> []) input_dict)
       \<and> distinct (map fst (filter_dict input_dict k v))"
proof -
  let ?P = "\<lambda>(g, key_list). filter_list key_list k v \<noteq> []"
  have keys: "map fst (filter_dict input_dict k v) = map fst (filter ?P input_dict)"
    by (simp add: filter_dict_eq [OF assms] keys_of_groups)
  have "length (map fst (filter_dict input_dict k v)) = length (map fst (filter ?P input_dict))"
    by (simp only: keys)
  then have len: "length (filter_dict input_dict k v) = length (filter ?P input_dict)"
    by simp
  have "distinct (map fst (filter ?P input_dict))"
    using assms by (rule distinct_map_filter)
  then have dist: "distinct (map fst (filter_dict input_dict k v))"
    by (simp only: keys)
  have look: "map_of (filter_dict input_dict k v) g =
           (case map_of input_dict g of None \<Rightarrow> None
            | Some key_list \<Rightarrow>
                if filter_list key_list k v = [] then None
                else Some (filter_list key_list k v))"
    by (simp add: filter_dict_eq [OF assms] map_of_groups [OF assms])
  from look keys len dist show ?thesis by blast
qed

text \<open>Three groups of which two have a match: two keys, in the order of the input.\<close>

theorem filter_dict_groups_witness:
  "map fst (filter_dict
      [(''xe-0/0/0'', [[(''vlan'', PInt 1)]]),
       (''xe-0/0/1'', [[(''vlan'', PInt 2)]]),
       (''xe-0/0/2'', [[(''vlan'', PInt 1)], [(''vlan'', PInt 3)]])] ''vlan'' (PInt 1))
     = [''xe-0/0/0'', ''xe-0/0/2'']
   \<and> length (filter_dict
      [(''xe-0/0/0'', [[(''vlan'', PInt 1)]]),
       (''xe-0/0/1'', [[(''vlan'', PInt 2)]]),
       (''xe-0/0/2'', [[(''vlan'', PInt 1)], [(''vlan'', PInt 3)]])] ''vlan'' (PInt 1)) = 2
   \<and> map_of (filter_dict
      [(''xe-0/0/0'', [[(''vlan'', PInt 1)]]),
       (''xe-0/0/1'', [[(''vlan'', PInt 2)]]),
       (''xe-0/0/2'', [[(''vlan'', PInt 1)], [(''vlan'', PInt 3)]])] ''vlan'' (PInt 1))
      ''xe-0/0/1'' = None"
  using filter_dict_groups [of
      "[(''xe-0/0/0'', [[(''vlan'', PInt 1)]]),
       (''xe-0/0/1'', [[(''vlan'', PInt 2)]]),
       (''xe-0/0/2'', [[(''vlan'', PInt 1)], [(''vlan'', PInt 3)]])]" "''vlan''" "PInt 1"
      "''xe-0/0/1''"]
  by (simp add: filter_list_eq dict_get_def)

section \<open>Properties of the configuration transaction\<close>

lemmas call_defs =
  compare_config_def discard_config_def commit_def rollback_def napalm_call_def

lemma sublist_after: "sublist xs (ps @ c # xs)"
  using sublist_appendI [of xs "ps @ [c]" "[]"] by simp

text \<open>The result of each path of \<^verbatim>\<open>_config_logic\<close>, in closed form.\<close>

lemma config_logic_test_path:
  assumes "drv ''compare_config'' sa = (cmp, sb)"
    and "result cmp" and "out cmp = Some d" and "d \<noteq> []"
    and "drv ''discard_config'' sb = (disc, sc)" and "result disc"
  shows "config_logic drv loaded True commit_config (sa, calls) =
     (Inr \<lparr>result = result loaded, out = None,
           comment = (if comment loaded \<noteq> [] then comment loaded @ [CHR 0x0A] else [])
               @ ''Configuration discarded.'',
           already_configured = False, diff = Some (Some d)\<rparr>,
      (sc, calls @ [''compare_config'', ''discard_config'']))"
  using assms by (simp add: config_logic_def call_defs diff_len_def Let_def)

lemma config_logic_no_change_path:
  assumes "result loaded"
    and "drv ''compare_config'' sa = (cmp, sb)"
    and "result cmp \<longrightarrow> out cmp = Some []"
    and "drv ''discard_config'' sb = (disc, sc)" and "result disc"
  shows "config_logic drv loaded False True (sa, calls) =
     (Inr \<lparr>result = True, out = (if result cmp then None else out loaded),
           comment = ''Already configured.'',
           already_configured = True,
           diff = (if result cmp then Some (Some []) else None)\<rparr>,
      (sc, calls @ [''compare_config'', ''discard_config'']))"
  using assms by (simp add: config_logic_def call_defs diff_len_def Let_def)

lemma config_logic_commit_failed_path:
  assumes "result loaded"
    and "drv ''compare_config'' sa = (cmp, sb)"
    and "result cmp" and "out cmp = Some d" and "d \<noteq> []"
    and "drv ''commit_config'' sb = (cm, sc)" and "\<not> result cm"
    and "drv ''discard_config'' sc = (disc, sd)"
  shows "config_logic drv loaded False True (sa, calls) =
     (Inr \<lparr>result = False, out = None,
           comment = comment loaded
               @ (if comment cm \<noteq> [] then comment cm else ''Unable to commit config.'')
               @ [CHR 0x0A]
               @ (if comment disc \<noteq> [] then comment disc else ''Unable to discard config.''),
           already_configured = False, diff = Some (Some d)\<rparr>,
      (sd, calls @ [''compare_config'', ''commit_config'', ''discard_config'']))"
  using assms by (simp add: config_logic_def call_defs diff_len_def Let_def)

lemma config_logic_staging_failed_path:
  assumes "\<not> result loaded"
    and "drv ''compare_config'' sa = (cmp, sb)"
    and "result cmp \<longrightarrow> out cmp \<noteq> None"
    and "drv ''discard_config'' sb = (disc, sc)"
  shows "config_logic drv loaded test commit_config (sa, calls) =
     (Inr \<lparr>result = False, out = (if result cmp then None else out loaded),
           comment = (if comment loaded \<noteq> [] then comment loaded @ [CHR 0x0A] else [])
               @ (if result disc then ''Configuration discarded.''
                  else if comment disc \<noteq> [] then comment disc
                  else ''Unable to discard config.''),
           already_configured = (\<not> result cmp \<or> out cmp = Some []),
           diff = (if result cmp then Some (out cmp) else None)\<rparr>,
      (sc, calls @ [''compare_config'', ''discard_config'']))"
proof (cases "result cmp")
  case False
  with assms show ?thesis
    by (simp add: config_logic_def call_defs diff_len_def Let_def)
next
  case True
  with assms obtain d where d: "out cmp = Some d" by auto
  with True assms show ?thesis
    by (simp add: config_logic_def call_defs diff_len_def Let_def)
qed

text \<open>
  Whatever the driver answers, the transaction runs \<open>discard_config\<close> at most once.
\<close>

lemma config_logic_discards_once:
  "count_list (snd (snd (config_logic drv loaded test commit_config (sa, calls))))
      ''discard_config''
     \<le> count_list calls ''discard_config'' + 1"
proof -
  obtain cmp sb where 1: "drv ''compare_config'' sa = (cmp, sb)"
    by (cases "drv ''compare_config'' sa")
  obtain disc sc where 2: "drv ''discard_config'' sb = (disc, sc)"
    by (cases "drv ''discard_config'' sb")
  obtain cm sd where 3: "drv ''commit_config'' sb = (cm, sd)"
    by (cases "drv ''commit_config'' sb")
  obtain disc' se where 4: "drv ''discard_config'' sd = (disc', se)"
    by (cases "drv ''discard_config'' sd")
  from 1 2 3 4 show ?thesis
    by (cases "result loaded"; cases test; cases commit_config; cases "result cmp";
        cases "out cmp")
       (simp_all add: config_logic_def call_defs diff_len_def Let_def)
qed

text \<open>
  The message of the comparison is never read: replacing it by any other text changes
  nothing in what the transaction returns.
\<close>

lemma config_logic_ignores_compare_comment:
  "config_logic (\<lambda>m s. if m = ''compare_config''
                       then (case drv m s of (e, s') \<Rightarrow> (e\<lparr>comment := c\<rparr>, s'))
                       else drv m s) loaded test commit_config (sa, calls)
   = config_logic drv loaded test commit_config (sa, calls)"
proof -
  obtain cmp sb where 1: "drv ''compare_config'' sa = (cmp, sb)"
    by (cases "drv ''compare_config'' sa")
  obtain disc sc where 2: "drv ''discard_config'' sb = (disc, sc)"
    by (cases "drv ''discard_config'' sb")
  obtain cm sd where 3: "drv ''commit_config'' sb = (cm, sd)"
    by (cases "drv ''commit_config'' sb")
  obtain disc' se where 4: "drv ''discard_config'' sd = (disc', se)"
    by (cases "drv ''discard_config'' sd")
  from 1 2 3 4 show ?thesis
    by (cases "result loaded"; cases test; cases commit_config; cases "result cmp";
        cases "out cmp")
       (simp_all add: config_logic_def call_defs diff_len_def Let_def)
qed

text \<open>
  Claim C1, as the code has it. When staging succeeded, \<open>test\<close> is false,
  \<open>commit_config\<close> is true, the difference is not empty and the commit fails, the
  result has \<open>result = False\<close> and its message is the staging message, the reason of
  the commit failure, a line break, and then the comment of the discard call or, when
  that comment is empty, the text \<open>Unable to discard config.\<close>. The code does not
  look at the result of the discard call: a discard that succeeded with an empty comment
  is reported as \<open>Unable to discard config.\<close>, where the other two paths of the
  function test the result first and write \<open>Configuration discarded.\<close> on success.
\<close>

theorem config_logic_commit_failure_message:
  assumes "result loaded"
    and "drv ''compare_config'' sa = (cmp, sb)"
    and "result cmp" and "out cmp = Some d" and "d \<noteq> []"
    and "drv ''commit_config'' sb = (cm, sc)" and "\<not> result cm"
    and "drv ''discard_config'' sc = (disc, sd)"
  shows "\<exists>r. fst (config_logic drv loaded False True (sa, calls)) = Inr r
           \<and> result r = False
           \<and> sublist (if comment cm \<noteq> [] then comment cm else ''Unable to commit config.'')
               (comment r)
           \<and> comment r = comment loaded
               @ (if comment cm \<noteq> [] then comment cm else ''Unable to commit config.'')
               @ [CHR 0x0A]
               @ (if comment disc \<noteq> [] then comment disc else ''Unable to discard config.'')"
  unfolding config_logic_commit_failed_path [OF assms] by simp

text \<open>
  The failing input: staging succeeded, the difference is \<open>+ntp peer 192.0.2.1\<close>, the
  commit fails with \<open>syntax error\<close>, and the discard succeeds with the empty comment
  of a successful call.
\<close>

theorem config_logic_commit_failure_message_witness:
  "\<exists>r. fst (config_logic
        (scripted
          [(''compare_config'',
              \<lparr>result = True, out = Some ''+ntp peer 192.0.2.1'', comment = []\<rparr>),
           (''commit_config'', \<lparr>result = False, out = None, comment = ''syntax error''\<rparr>),
           (''discard_config'', \<lparr>result = True, out = None, comment = []\<rparr>)])
        \<lparr>result = True, out = Some ''loaded'', comment = []\<rparr> False True ((), [])) = Inr r
     \<and> result r = False
     \<and> comment r = ''syntax error'' @ [CHR 0x0A] @ ''Unable to discard config.''"
  using config_logic_commit_failure_message
    [where drv = "scripted
          [(''compare_config'',
              \<lparr>result = True, out = Some ''+ntp peer 192.0.2.1'', comment = []\<rparr>),
           (''commit_config'', \<lparr>result = False, out = None, comment = ''syntax error''\<rparr>),
           (''discard_config'', \<lparr>result = True, out = None, comment = []\<rparr>)]"
      and loaded = "\<lparr>result = True, out = Some ''loaded'', comment = []\<rparr>"
      and sa = "()" and sb = "()" and sc = "()" and sd = "()" and calls = "[]"
      and cmp = "\<lparr>result = True, out = Some ''+ntp peer 192.0.2.1'', comment = []\<rparr>"
      and d = "''+ntp peer 192.0.2.1''"
      and cm = "\<lparr>result = False, out = None, comment = ''syntax error''\<rparr>"
      and disc = "\<lparr>result = True, out = None, comment = []\<rparr>"]
  by (auto simp add: scripted_def)

text \<open>
  Claim C2, as amended. When staging succeeded, \<open>test\<close> is false, \<open>commit_config\<close>
  is true, the difference is empty (the comparison failed, or it returned the empty
  text) and the discard succeeds, the result has \<open>already_configured = True\<close> and
  its message is exactly \<open>Already configured.\<close>, whatever the message was before.
\<close>

theorem config_logic_already_configured:
  assumes "result loaded"
    and "drv ''compare_config'' sa = (cmp, sb)"
    and "result cmp \<longrightarrow> out cmp = Some []"
    and "drv ''discard_config'' sb = (disc, sc)" and "result disc"
  shows "\<exists>r. fst (config_logic drv loaded False True (sa, calls)) = Inr r
           \<and> already_configured r = True
           \<and> comment r = ''Already configured.''"
  unfolding config_logic_no_change_path [OF assms] by simp

theorem config_logic_already_configured_witness:
  "\<exists>r. fst (config_logic
        (scripted
          [(''compare_config'', \<lparr>result = True, out = Some [], comment = []\<rparr>),
           (''discard_config'', \<lparr>result = True, out = None, comment = []\<rparr>)])
        \<lparr>result = True, out = Some ''loaded'', comment = ''1 warning''\<rparr>
        False True ((), [])) = Inr r
     \<and> already_configured r = True
     \<and> comment r = ''Already configured.''"
  using config_logic_already_configured
    [where drv = "scripted
          [(''compare_config'', \<lparr>result = True, out = Some [], comment = []\<rparr>),
           (''discard_config'', \<lparr>result = True, out = None, comment = []\<rparr>)]"
      and loaded = "\<lparr>result = True, out = Some ''loaded'', comment = ''1 warning''\<rparr>"
      and sa = "()" and sb = "()" and sc = "()" and calls = "[]"
      and cmp = "\<lparr>result = True, out = Some [], comment = []\<rparr>"
      and disc = "\<lparr>result = True, out = None, comment = []\<rparr>"]
  by (auto simp add: scripted_def)

text \<open>
  The claim as stated fails in two ways, both with \<open>test\<close> false, \<open>commit_config\<close>
  true and an empty difference. When the discard fails, the function returns at once
  with \<open>already_configured = False\<close> and the message of the discard. When staging
  failed, the first path is taken and the message ends in \<open>Configuration discarded.\<close>
\<close>

theorem config_logic_empty_diff_counterexample:
  "fst (config_logic
        (scripted
          [(''compare_config'', \<lparr>result = True, out = Some [], comment = []\<rparr>),
           (''discard_config'',
              \<lparr>result = False, out = None, comment = ''Configuration database locked''\<rparr>)])
        \<lparr>result = True, out = Some ''loaded'', comment = []\<rparr> False True ((), []))
     = Inr \<lparr>result = False, out = None, comment = ''Configuration database locked'',
            already_configured = False, diff = Some (Some [])\<rparr>
   \<and> fst (config_logic
        (scripted
          [(''compare_config'', \<lparr>result = True, out = Some [], comment = []\<rparr>),
           (''discard_config'', \<lparr>result = True, out = None, comment = []\<rparr>)])
        \<lparr>result = False, out = (None :: string option), comment = ''Invalid syntax''\<rparr>
        False True ((), []))
     = Inr \<lparr>result = False, out = None,
            comment = ''Invalid syntax'' @ [CHR 0x0A] @ ''Configuration discarded.'',
            already_configured = True, diff = Some (Some [])\<rparr>"
  by (simp add: config_logic_def call_defs scripted_def diff_len_def)

text \<open>
  Claim C3. With \<open>test\<close> true and a difference that is not empty, when the discard
  succeeds the result has \<open>already_configured = False\<close>, its message contains
  \<open>Configuration discarded.\<close>, and \<open>result\<close> is the one of the staging call.
\<close>

theorem config_logic_test_mode_discarded:
  assumes "drv ''compare_config'' sa = (cmp, sb)"
    and "result cmp" and "out cmp = Some d" and "d \<noteq> []"
    and "drv ''discard_config'' sb = (disc, sc)" and "result disc"
  shows "\<exists>r. fst (config_logic drv loaded True commit_config (sa, calls)) = Inr r
           \<and> already_configured r = False
           \<and> sublist ''Configuration discarded.'' (comment r)
           \<and> result r = result loaded"
  unfolding config_logic_test_path [OF assms] by (simp add: sublist_after)

theorem config_logic_test_mode_discarded_witness:
  "\<exists>r. fst (config_logic
        (scripted
          [(''compare_config'',
              \<lparr>result = True, out = Some ''+ntp peer 192.0.2.1'', comment = []\<rparr>),
           (''discard_config'', \<lparr>result = True, out = None, comment = []\<rparr>)])
        \<lparr>result = True, out = Some ''loaded'', comment = []\<rparr> True True ((), [])) = Inr r
     \<and> already_configured r = False
     \<and> sublist ''Configuration discarded.'' (comment r)
     \<and> result r = True"
  using config_logic_test_mode_discarded
    [where drv = "scripted
          [(''compare_config'',
              \<lparr>result = True, out = Some ''+ntp peer 192.0.2.1'', comment = []\<rparr>),
           (''discard_config'', \<lparr>result = True, out = None, comment = []\<rparr>)]"
      and loaded = "\<lparr>result = True, out = Some ''loaded'', comment = []\<rparr>"
      and commit_config = True
      and sa = "()" and sb = "()" and sc = "()" and calls = "[]"
      and cmp = "\<lparr>result = True, out = Some ''+ntp peer 192.0.2.1'', comment = []\<rparr>"
      and d = "''+ntp peer 192.0.2.1''"
      and disc = "\<lparr>result = True, out = None, comment = []\<rparr>"]
  by (auto simp add: scripted_def)

text \<open>
  Claim C4. The claim holds of a staging failure (lemma
  \<open>config_logic_staging_failed_path\<close>: one discard, \<open>result = False\<close>, the staging
  message followed by the outcome of the discard, provided a comparison that succeeded
  returned a text and not \<open>None\<close>) and of the number of discards (lemma
  \<open>config_logic_discards_once\<close>). The code misses it for a failure of the comparison:
  the test at line 121 has no other branch, so the comparison's message is never read.
  When staging succeeded, \<open>test\<close> is false, \<open>commit_config\<close> is true, the
  comparison fails and the discard succeeds, the transaction discards the candidate
  and returns \<open>result = True\<close> with the message \<open>Already configured.\<close>, and
  replacing the comparison's message by any other text changes nothing in what is
  returned.
\<close>

theorem config_logic_compare_failure_unreported:
  assumes "result loaded"
    and "drv ''compare_config'' sa = (cmp, sb)" and "\<not> result cmp"
    and "drv ''discard_config'' sb = (disc, sc)" and "result disc"
  shows "config_logic drv loaded False True (sa, calls) =
           (Inr \<lparr>result = True, out = out loaded, comment = ''Already configured.'',
                 already_configured = True, diff = None\<rparr>,
            (sc, calls @ [''compare_config'', ''discard_config'']))
       \<and> config_logic (\<lambda>m s. if m = ''compare_config''
                       then (case drv m s of (e, s') \<Rightarrow> (e\<lparr>comment := c\<rparr>, s'))
                       else drv m s) loaded False True (sa, calls)
           = config_logic drv loaded False True (sa, calls)"
proof
  from assms(3) have empty: "result cmp \<longrightarrow> out cmp = Some []" by simp
  from config_logic_no_change_path [OF assms(1) assms(2) empty assms(4) assms(5)] assms(3)
  show "config_logic drv loaded False True (sa, calls) =
           (Inr \<lparr>result = True, out = out loaded, comment = ''Already configured.'',
                 already_configured = True, diff = None\<rparr>,
            (sc, calls @ [''compare_config'', ''discard_config'']))"
    by simp
next
  show "config_logic (\<lambda>m s. if m = ''compare_config''
                       then (case drv m s of (e, s') \<Rightarrow> (e\<lparr>comment := c\<rparr>, s'))
                       else drv m s) loaded False True (sa, calls)
           = config_logic drv loaded False True (sa, calls)"
    by (rule config_logic_ignores_compare_comment)
qed

text \<open>
  The failing input: staging succeeded, the comparison fails with \<open>connection lost\<close>,
  the discard succeeds. The transaction reports success, and nothing of the failure
  is in the result.
\<close>

theorem config_logic_compare_failure_unreported_witness:
  "config_logic
        (scripted
          [(''compare_config'', \<lparr>result = False, out = None, comment = ''connection lost''\<rparr>),
           (''discard_config'', \<lparr>result = True, out = None, comment = []\<rparr>)])
        \<lparr>result = True, out = Some ''loaded'', comment = []\<rparr> False True ((), [])
     = (Inr \<lparr>result = True, out = Some ''loaded'', comment = ''Already configured.'',
             already_configured = True, diff = None\<rparr>,
        ((), [''compare_config'', ''discard_config'']))"
  using config_logic_compare_failure_unreported
    [where drv = "scripted
          [(''compare_config'', \<lparr>result = False, out = None, comment = ''connection lost''\<rparr>),
           (''discard_config'', \<lparr>result = True, out = None, comment = []\<rparr>)]"
      and loaded = "\<lparr>result = True, out = Some ''loaded'', comment = []\<rparr>"
      and c = "[]"
      and sa = "()" and sb = "()" and sc = "()" and calls = "[]"
      and cmp = "\<lparr>result = False, out = None, comment = ''connection lost''\<rparr>"
      and disc = "\<lparr>result = True, out = None, comment = []\<rparr>"]
  by (simp add: scripted_def)

section \<open>Properties of drift detection and reconciliation\<close>

lemma config_control_commit_failed_path:
  assumes "drv ''compare_config'' sa = (cmp, sb)"
    and "result cmp" and "out cmp = Some d" and "d \<noteq> []"
    and "drv ''commit_config'' sb = (cm, sc)" and "\<not> result cm"
    and "drv ''rollback'' sc = (rb, sd)"
  shows "config_control drv (sa, calls) =
     ((False, ''Unable to commit the changes: '' @ comment cm @ ''.''
                @ [CHR 0x0A] @ ''        Will try to rollback now!''
                @ (if result rb then []
                   else [CHR 0x0A] @ ''Cannot rollback! '' @ comment rb)),
      (sd, calls @ [''compare_config'', ''commit_config'', ''rollback'']))"
  using assms by (simp add: config_control_def config_changed_def call_defs Let_def)

text \<open>
  Claim C5, as amended. When drift is present and the commit fails, \<^verbatim>\<open>config_control\<close>
  returns \<open>False\<close> with a comment that embeds the reason of the commit failure and the
  notice \<open>Will try to rollback now!\<close>, whether the rollback succeeds or fails. A
  rollback that fails appends \<open>Cannot rollback!\<close> and its reason; a rollback that
  succeeds appends nothing.
\<close>

theorem config_control_commit_failure:
  assumes "drv ''compare_config'' sa = (cmp, sb)"
    and "result cmp" and "out cmp = Some d" and "d \<noteq> []"
    and "drv ''commit_config'' sb = (cm, sc)" and "\<not> result cm"
    and "drv ''rollback'' sc = (rb, sd)"
  shows "fst (fst (config_control drv (sa, calls))) = False
       \<and> sublist (comment cm) (snd (fst (config_control drv (sa, calls))))
       \<and> (\<not> result rb \<longrightarrow>
            snd (fst (config_control drv (sa, calls))) =
              ''Unable to commit the changes: '' @ comment cm @ ''.''
                @ [CHR 0x0A] @ ''        Will try to rollback now!''
                @ [CHR 0x0A] @ ''Cannot rollback! '' @ comment rb)
       \<and> (result rb \<longrightarrow>
            snd (fst (config_control drv (sa, calls))) =
              ''Unable to commit the changes: '' @ comment cm @ ''.''
                @ [CHR 0x0A] @ ''        Will try to rollback now!'')"
proof -
  have "sublist (comment cm)
          (''Unable to commit the changes: '' @ comment cm @ ''.''
                @ [CHR 0x0A] @ ''        Will try to rollback now!''
                @ (if result rb then []
                   else [CHR 0x0A] @ ''Cannot rollback! '' @ comment rb))"
    by (rule sublist_appendI)
  then show ?thesis
    unfolding config_control_commit_failed_path [OF assms] by simp
qed

text \<open>Commit fails with \<open>syntax error\<close>; the rollback fails, then succeeds.\<close>

theorem config_control_commit_failure_witness:
  "fst (config_control
        (scripted
          [(''compare_config'',
              \<lparr>result = True, out = Some ''+ntp peer 192.0.2.1'', comment = []\<rparr>),
           (''commit_config'', \<lparr>result = False, out = None, comment = ''syntax error''\<rparr>),
           (''rollback'', \<lparr>result = False, out = None, comment = ''timeout''\<rparr>)])
        ((), []))
     = (False, ''Unable to commit the changes: syntax error.'' @ [CHR 0x0A]
          @ ''        Will try to rollback now!'' @ [CHR 0x0A] @ ''Cannot rollback! timeout'')
   \<and> fst (fst (config_control
        (scripted
          [(''compare_config'',
              \<lparr>result = True, out = Some ''+ntp peer 192.0.2.1'', comment = []\<rparr>),
           (''commit_config'', \<lparr>result = False, out = None, comment = ''syntax error''\<rparr>),
           (''rollback'', \<lparr>result = True, out = None, comment = []\<rparr>)])
        ((), []))) = False"
  using
    config_control_commit_failure
      [where drv = "scripted
          [(''compare_config'',
              \<lparr>result = True, out = Some ''+ntp peer 192.0.2.1'', comment = []\<rparr>),
           (''commit_config'', \<lparr>result = False, out = None, comment = ''syntax error''\<rparr>),
           (''rollback'', \<lparr>result = False, out = None, comment = ''timeout''\<rparr>)]"
        and sa = "()" and sb = "()" and sc = "()" and sd = "()" and calls = "[]"
        and cmp = "\<lparr>result = True, out = Some ''+ntp peer 192.0.2.1'', comment = []\<rparr>"
        and d = "''+ntp peer 192.0.2.1''"
        and cm = "\<lparr>result = False, out = None, comment = ''syntax error''\<rparr>"
        and rb = "\<lparr>result = False, out = None, comment = ''timeout''\<rparr>"]
    config_control_commit_failure
      [where drv = "scripted
          [(''compare_config'',
              \<lparr>result = True, out = Some ''+ntp peer 192.0.2.1'', comment = []\<rparr>),
           (''commit_config'', \<lparr>result = False, out = None, comment = ''syntax error''\<rparr>),
           (''rollback'', \<lparr>result = True, out = None, comment = []\<rparr>)]"
        and sa = "()" and sb = "()" and sc = "()" and sd = "()" and calls = "[]"
        and cmp = "\<lparr>result = True, out = Some ''+ntp peer 192.0.2.1'', comment = []\<rparr>"
        and d = "''+ntp peer 192.0.2.1''"
        and cm = "\<lparr>result = False, out = None, comment = ''syntax error''\<rparr>"
        and rb = "\<lparr>result = True, out = None, comment = []\<rparr>"]
  by (auto simp add: scripted_def prod_eq_iff)

text \<open>
  The claim as stated fails when the rollback succeeds: the comment is the text built
  before the rollback was called, the announcement of a rollback and no confirmation of
  one, even when the rollback call returns a comment of its own.
\<close>

theorem config_control_rollback_success_counterexample:
  "fst (config_control
        (scripted
          [(''compare_config'',
              \<lparr>result = True, out = Some ''+ntp peer 192.0.2.1'', comment = []\<rparr>),
           (''commit_config'', \<lparr>result = False, out = None, comment = ''syntax error''\<rparr>),
           (''rollback'', \<lparr>result = True, out = None, comment = ''Rollback complete.''\<rparr>)])
        ((), []))
     = (False, ''Unable to commit the changes: syntax error.'' @ [CHR 0x0A]
          @ ''        Will try to rollback now!'')"
  by (simp add: config_control_def config_changed_def call_defs scripted_def)

text \<open>
  Claim C6. \<^verbatim>\<open>config_changed\<close> has three outcomes: when the comparison fails,
  \<open>False\<close> and the message of the failure; when it succeeds with a difference that is
  not empty, \<open>True\<close> and the empty text; when it succeeds with an empty (or missing)
  difference, \<open>False\<close> and \<open>Configuration was not changed on the device.\<close>
\<close>

theorem config_changed_outcomes:
  assumes "drv ''compare_config'' sa = (cmp, sb)"
  shows "(\<not> result cmp \<longrightarrow> fst (config_changed drv (sa, calls)) = (False, comment cmp))
       \<and> (result cmp \<and> (\<exists>d. out cmp = Some d \<and> d \<noteq> []) \<longrightarrow>
            fst (config_changed drv (sa, calls)) = (True, []))
       \<and> (result cmp \<and> (out cmp = None \<or> out cmp = Some []) \<longrightarrow>
            fst (config_changed drv (sa, calls))
              = (False, ''Configuration was not changed on the device.''))"
  using assms by (auto simp add: config_changed_def call_defs)

theorem config_changed_outcomes_witness:
  "fst (config_changed
        (scripted [(''compare_config'',
           \<lparr>result = False, out = None, comment = ''connection lost''\<rparr>)]) ((), []))
     = (False, ''connection lost'')
   \<and> fst (config_changed
        (scripted [(''compare_config'',
           \<lparr>result = True, out = Some ''+ntp peer 192.0.2.1'', comment = []\<rparr>)]) ((), []))
     = (True, [])
   \<and> fst (config_changed
        (scripted [(''compare_config'',
           \<lparr>result = True, out = Some [], comment = []\<rparr>)]) ((), []))
     = (False, ''Configuration was not changed on the device.'')"
  using
    config_changed_outcomes
      [where drv = "scripted [(''compare_config'',
           \<lparr>result = False, out = None, comment = ''connection lost''\<rparr>)]"
        and sa = "()" and sb = "()" and calls = "[]"
        and cmp = "\<lparr>result = False, out = None, comment = ''connection lost''\<rparr>"]
    config_changed_outcomes
      [where drv = "scripted [(''compare_config'',
           \<lparr>result = True, out = Some ''+ntp peer 192.0.2.1'', comment = []\<rparr>)]"
        and sa = "()" and sb = "()" and calls = "[]"
        and cmp = "\<lparr>result = True, out = Some ''+ntp peer 192.0.2.1'', comment = []\<rparr>"]
    config_changed_outcomes
      [where drv = "scripted [(''compare_config'',
           \<lparr>result = True, out = Some [], comment = []\<rparr>)]"
        and sa = "()" and sb = "()" and calls = "[]"
        and cmp = "\<lparr>result = True, out = Some [], comment = []\<rparr>"]
  by (simp add: scripted_def)

section \<open>Properties of the table getters\<close>

text \<open>
  Claim C7, as amended. On a successful call, \<^verbatim>\<open>lldp\<close> with an interface that is
  not empty returns a table with exactly one key, the interface, bound to the driver's
  entry for it as it is, or to \<open>None\<close> when the driver's table has no such key; the
  rows are not filtered. With an empty interface the envelope is returned as it is.
\<close>

theorem lldp_selects_interface:
  assumes "drv ''get_lldp_neighbors_detail'' sa = (po, sb)"
    and "result po" and "out po = Some tbl"
  shows "(interface \<noteq> [] \<longrightarrow>
           fst (lldp drv interface (sa, calls)) =
             Inr (po\<lparr>out := Some [(interface,
                    (case map_of tbl interface of None \<Rightarrow> None | Some v \<Rightarrow> v))]\<rparr>))
       \<and> (interface = [] \<longrightarrow> fst (lldp drv interface (sa, calls)) = Inr po)"
  using assms by (simp add: lldp_def call_defs)

theorem lldp_selects_interface_witness:
  "fst (lldp
        (scripted [(''get_lldp_neighbors_detail'',
           \<lparr>result = True,
            out = Some [(''xe-0/0/0'', Some [[(''remote_port'', PStr ''Eth2/2/1'')]]),
                        (''xe-0/0/1'', Some [[(''remote_port'', PStr ''Eth2/2/2'')]])],
            comment = []\<rparr>)])
        ''xe-0/0/1'' ((), []))
     = Inr \<lparr>result = True,
            out = Some [(''xe-0/0/1'', Some [[(''remote_port'', PStr ''Eth2/2/2'')]])],
            comment = []\<rparr>
   \<and> fst (lldp
        (scripted [(''get_lldp_neighbors_detail'',
           \<lparr>result = True,
            out = Some [(''xe-0/0/0'', Some [[(''remote_port'', PStr ''Eth2/2/1'')]]),
                        (''xe-0/0/1'', Some [[(''remote_port'', PStr ''Eth2/2/2'')]])],
            comment = []\<rparr>)])
        [] ((), []))
     = Inr \<lparr>result = True,
            out = Some [(''xe-0/0/0'', Some [[(''remote_port'', PStr ''Eth2/2/1'')]]),
                        (''xe-0/0/1'', Some [[(''remote_port'', PStr ''Eth2/2/2'')]])],
            comment = []\<rparr>"
  using
    lldp_selects_interface
      [where drv = "scripted [(''get_lldp_neighbors_detail'',
           \<lparr>result = True,
            out = Some [(''xe-0/0/0'', Some [[(''remote_port'', PStr ''Eth2/2/1'')]]),
                        (''xe-0/0/1'', Some [[(''remote_port'', PStr ''Eth2/2/2'')]])],
            comment = []\<rparr>)]"
        and interface = "''xe-0/0/1''"
        and sa = "()" and sb = "()" and calls = "[]"
        and po = "\<lparr>result = True,
            out = Some [(''xe-0/0/0'', Some [[(''remote_port'', PStr ''Eth2/2/1'')]]),
                        (''xe-0/0/1'', Some [[(''remote_port'', PStr ''Eth2/2/2'')]])],
            comment = []\<rparr>"
        and tbl = "[(''xe-0/0/0'', Some [[(''remote_port'', PStr ''Eth2/2/1'')]]),
                        (''xe-0/0/1'', Some [[(''remote_port'', PStr ''Eth2/2/2'')]])]"]
    lldp_selects_interface
      [where drv = "scripted [(''get_lldp_neighbors_detail'',
           \<lparr>result = True,
            out = Some [(''xe-0/0/0'', Some [[(''remote_port'', PStr ''Eth2/2/1'')]]),
                        (''xe-0/0/1'', Some [[(''remote_port'', PStr ''Eth2/2/2'')]])],
            comment = []\<rparr>)]"
        and interface = "[]"
        and sa = "()" and sb = "()" and calls = "[]"
        and po = "\<lparr>result = True,
            out = Some [(''xe-0/0/0'', Some [[(''remote_port'', PStr ''Eth2/2/1'')]]),
                        (''xe-0/0/1'', Some [[(''remote_port'', PStr ''Eth2/2/2'')]])],
            comment = []\<rparr>"
        and tbl = "[(''xe-0/0/0'', Some [[(''remote_port'', PStr ''Eth2/2/1'')]]),
                        (''xe-0/0/1'', Some [[(''remote_port'', PStr ''Eth2/2/2'')]])]"]
  by (simp add: scripted_def)

text \<open>
  The claim as stated fails for an interface the table does not have: the group is not
  omitted, the result binds the interface to \<open>None\<close>.
\<close>

theorem lldp_absent_interface_counterexample:
  "fst (lldp
        (scripted [(''get_lldp_neighbors_detail'',
           \<lparr>result = True,
            out = Some [(''xe-0/0/0'', Some [[(''remote_port'', PStr ''Eth2/2/1'')]])],
            comment = []\<rparr>)])
        ''xe-0/0/1'' ((), []))
     = Inr \<lparr>result = True, out = Some [(''xe-0/0/1'', None)], comment = []\<rparr>"
  by (simp add: lldp_def call_defs scripted_def)

lemma nonzero_int:
  "py_truthy v \<and> py_isinstance_int v \<longleftrightarrow> (\<exists>n. n \<noteq> 0 \<and> v = PInt n) \<or> v = PBool True"
  by (cases v) auto

lemma arp_success:
  assumes "drv ''get_arp_table'' sa = (po, sb)" and "result po" and "out po = Some t"
  shows "fst (arp drv interface ipaddr macaddr (sa, calls)) =
    Inr (po\<lparr>out := Some
      (let t1 = (if py_truthy interface then filter_list t ''interface'' interface else t);
           t2 = (if py_truthy ipaddr then filter_list t1 ''ip'' ipaddr else t1)
       in (if py_truthy macaddr then filter_list t2 ''mac'' macaddr else t2))\<rparr>)"
  using assms by (simp add: arp_def call_defs Let_def)

lemma mac_success:
  assumes "drv ''get_mac_address_table'' sa = (po, sb)" and "result po" and "out po = Some t"
  shows "fst (mac drv address interface vlan (sa, calls)) =
    Inr (po\<lparr>out := Some
      (let t1 = (if (\<exists>n. n \<noteq> 0 \<and> vlan = PInt n) \<or> vlan = PBool True
                 then filter_list t ''vlan'' vlan else t);
           t2 = (if py_truthy address then filter_list t1 ''mac'' address else t1)
       in (if py_truthy interface then filter_list t2 ''interface'' interface else t2))\<rparr>)"
  using assms unfolding nonzero_int [symmetric] by (simp add: mac_def call_defs Let_def)

text \<open>
  Claim C10. When the driver call reports failure, \<^verbatim>\<open>arp\<close>, \<^verbatim>\<open>mac\<close> and \<^verbatim>\<open>lldp\<close>
  return the driver's envelope unchanged, whatever filters were asked for. On a
  successful call \<^verbatim>\<open>arp\<close> and \<^verbatim>\<open>mac\<close> apply the requested filters to \<open>out\<close>, and
  \<^verbatim>\<open>mac\<close> applies the \<open>vlan\<close> filter exactly when \<open>vlan\<close> is a nonzero integer
  (in Python \<open>True\<close> is the integer \<open>1\<close>).
\<close>

theorem getters_failure_unfiltered:
  "(drva ''get_arp_table'' sa = (pa, sb) \<and> \<not> result pa \<longrightarrow>
      fst (arp drva interface ipaddr macaddr (sa, calls)) = Inr pa)
 \<and> (drvm ''get_mac_address_table'' sa = (pm, sc) \<and> \<not> result pm \<longrightarrow>
      fst (mac drvm address interface vlan (sa, calls)) = Inr pm)
 \<and> (drvl ''get_lldp_neighbors_detail'' sa = (pl, sd) \<and> \<not> result pl \<longrightarrow>
      fst (lldp drvl name (sa, calls)) = Inr pl)
 \<and> (drva ''get_arp_table'' sa = (pa, sb) \<and> result pa \<and> out pa = Some ta \<longrightarrow>
      fst (arp drva interface ipaddr macaddr (sa, calls)) =
        Inr (pa\<lparr>out := Some
          (let t1 = (if py_truthy interface
                     then filter_list ta ''interface'' interface else ta);
               t2 = (if py_truthy ipaddr then filter_list t1 ''ip'' ipaddr else t1)
           in (if py_truthy macaddr then filter_list t2 ''mac'' macaddr else t2))\<rparr>))
 \<and> (drvm ''get_mac_address_table'' sa = (pm, sc) \<and> result pm \<and> out pm = Some tm \<longrightarrow>
      fst (mac drvm address interface vlan (sa, calls)) =
        Inr (pm\<lparr>out := Some
          (let t1 = (if (\<exists>n. n \<noteq> 0 \<and> vlan = PInt n) \<or> vlan = PBool True
                     then filter_list tm ''vlan'' vlan else tm);
               t2 = (if py_truthy address then filter_list t1 ''mac'' address else t1)
           in (if py_truthy interface
               then filter_list t2 ''interface'' interface else t2))\<rparr>))"
proof (intro conjI impI)
  assume "drva ''get_arp_table'' sa = (pa, sb) \<and> \<not> result pa"
  then show "fst (arp drva interface ipaddr macaddr (sa, calls)) = Inr pa"
    by (simp add: arp_def call_defs)
next
  assume "drvm ''get_mac_address_table'' sa = (pm, sc) \<and> \<not> result pm"
  then show "fst (mac drvm address interface vlan (sa, calls)) = Inr pm"
    by (simp add: mac_def call_defs)
next
  assume "drvl ''get_lldp_neighbors_detail'' sa = (pl, sd) \<and> \<not> result pl"
  then show "fst (lldp drvl name (sa, calls)) = Inr pl"
    by (simp add: lldp_def call_defs)
next
  assume "drva ''get_arp_table'' sa = (pa, sb) \<and> result pa \<and> out pa = Some ta"
  then show "fst (arp drva interface ipaddr macaddr (sa, calls)) =
        Inr (pa\<lparr>out := Some
          (let t1 = (if py_truthy interface
                     then filter_list ta ''interface'' interface else ta);
               t2 = (if py_truthy ipaddr then filter_list t1 ''ip'' ipaddr else t1)
           in (if py_truthy macaddr then filter_list t2 ''mac'' macaddr else t2))\<rparr>)"
    by (simp add: arp_success)
next
  assume "drvm ''get_mac_address_table'' sa = (pm, sc) \<and> result pm \<and> out pm = Some tm"
  then show "fst (mac drvm address interface vlan (sa, calls)) =
        Inr (pm\<lparr>out := Some
          (let t1 = (if (\<exists>n. n \<noteq> 0 \<and> vlan = PInt n) \<or> vlan = PBool True
                     then filter_list tm ''vlan'' vlan else tm);
               t2 = (if py_truthy address then filter_list t1 ''mac'' address else t1)
           in (if py_truthy interface
               then filter_list t2 ''interface'' interface else t2))\<rparr>)"
    by (simp add: mac_success)
qed

text \<open>
  A driver that cannot execute any method, with filters requested: the three envelopes
  come back as they are. A MAC table of two rows: \<open>vlan = 42\<close> selects one row,
  \<open>vlan = 0\<close> filters nothing.
\<close>

theorem getters_failure_unfiltered_witness:
  "fst (arp (scripted []) (PStr ''xe-0/0/0'') (PStr ''172.17.17.2'') PNone ((), []))
     = Inr \<lparr>result = False, out = None, comment = ''Cannot execute''\<rparr>
   \<and> fst (mac (scripted []) (PStr ''aa:bb'') (PStr ''xe-0/0/0'') (PInt 42) ((), []))
     = Inr \<lparr>result = False, out = None, comment = ''Cannot execute''\<rparr>
   \<and> fst (lldp (scripted []) ''xe-0/0/0'' ((), []))
     = Inr \<lparr>result = False, out = None, comment = ''Cannot execute''\<rparr>
   \<and> fst (mac (scripted [(''get_mac_address_table'',
             \<lparr>result = True,
              out = Some [[(''mac'', PStr ''aa:bb''), (''vlan'', PInt 42)],
                          [(''mac'', PStr ''cc:dd''), (''vlan'', PInt 7)]],
              comment = []\<rparr>)])
           (PStr []) (PStr []) (PInt 42) ((), []))
     = Inr \<lparr>result = True,
            out = Some [[(''mac'', PStr ''aa:bb''), (''vlan'', PInt 42)]], comment = []\<rparr>
   \<and> fst (mac (scripted [(''get_mac_address_table'',
             \<lparr>result = True,
              out = Some [[(''mac'', PStr ''aa:bb''), (''vlan'', PInt 42)],
                          [(''mac'', PStr ''cc:dd''), (''vlan'', PInt 7)]],
              comment = []\<rparr>)])
           (PStr []) (PStr []) (PInt 0) ((), []))
     = Inr \<lparr>result = True,
            out = Some [[(''mac'', PStr ''aa:bb''), (''vlan'', PInt 42)],
                        [(''mac'', PStr ''cc:dd''), (''vlan'', PInt 7)]], comment = []\<rparr>
   \<and> fst (arp (scripted [(''get_arp_table'',
             \<lparr>result = True,
              out = Some [[(''interface'', PStr ''xe-0/0/0''), (''ip'', PStr ''172.17.17.1'')],
                          [(''interface'', PStr ''xe-0/0/1''), (''ip'', PStr ''172.17.17.2'')]],
              comment = []\<rparr>)])
           (PStr []) (PStr ''172.17.17.2'') (PStr []) ((), []))
     = Inr \<lparr>result = True,
            out = Some [[(''interface'', PStr ''xe-0/0/1''), (''ip'', PStr ''172.17.17.2'')]],
            comment = []\<rparr>"
  using
    getters_failure_unfiltered
      [where drva = "scripted []" and drvm = "scripted []" and drvl = "scripted []"
        and sa = "()" and sb = "()" and sc = "()" and sd = "()" and calls = "[]"
        and pa = "\<lparr>result = False, out = None, comment = ''Cannot execute''\<rparr>"
        and pm = "\<lparr>result = False, out = None, comment = ''Cannot execute''\<rparr>"
        and pl = "\<lparr>result = False, out = None, comment = ''Cannot execute''\<rparr>"
        and interface = "PStr ''xe-0/0/0''" and ipaddr = "PStr ''172.17.17.2''"
        and macaddr = PNone and address = "PStr ''aa:bb''" and vlan = "PInt 42"
        and name = "''xe-0/0/0''"]
    getters_failure_unfiltered
      [where drvm = "scripted [(''get_mac_address_table'',
             \<lparr>result = True,
              out = Some [[(''mac'', PStr ''aa:bb''), (''vlan'', PInt 42)],
                          [(''mac'', PStr ''cc:dd''), (''vlan'', PInt 7)]],
              comment = []\<rparr>)]"
        and drva = "scripted [(''get_arp_table'',
             \<lparr>result = True,
              out = Some [[(''interface'', PStr ''xe-0/0/0''), (''ip'', PStr ''172.17.17.1'')],
                          [(''interface'', PStr ''xe-0/0/1''), (''ip'', PStr ''172.17.17.2'')]],
              comment = []\<rparr>)]"
        and sa = "()" and sb = "()" and sc = "()" and calls = "[]"
        and pm = "\<lparr>result = True,
              out = Some [[(''mac'', PStr ''aa:bb''), (''vlan'', PInt 42)],
                          [(''mac'', PStr ''cc:dd''), (''vlan'', PInt 7)]],
              comment = []\<rparr>"
        and tm = "[[(''mac'', PStr ''aa:bb''), (''vlan'', PInt 42)],
                          [(''mac'', PStr ''cc:dd''), (''vlan'', PInt 7)]]"
        and pa = "\<lparr>result = True,
              out = Some [[(''interface'', PStr ''xe-0/0/0''), (''ip'', PStr ''172.17.17.1'')],
                          [(''interface'', PStr ''xe-0/0/1''), (''ip'', PStr ''172.17.17.2'')]],
              comment = []\<rparr>"
        and ta = "[[(''interface'', PStr ''xe-0/0/0''), (''ip'', PStr ''172.17.17.1'')],
                          [(''interface'', PStr ''xe-0/0/1''), (''ip'', PStr ''172.17.17.2'')]]"
        and interface = "PStr []" and ipaddr = "PStr ''172.17.17.2''" and macaddr = "PStr []"
        and address = "PStr []" and vlan = "PInt 42"]
    getters_failure_unfiltered
      [where drvm = "scripted [(''get_mac_address_table'',
             \<lparr>result = True,
              out = Some [[(''mac'', PStr ''aa:bb''), (''vlan'', PInt 42)],
                          [(''mac'', PStr ''cc:dd''), (''vlan'', PInt 7)]],
              comment = []\<rparr>)]"
        and sa = "()" and sc = "()" and calls = "[]"
        and pm = "\<lparr>result = True,
              out = Some [[(''mac'', PStr ''aa:bb''), (''vlan'', PInt 42)],
                          [(''mac'', PStr ''cc:dd''), (''vlan'', PInt 7)]],
              comment = []\<rparr>"
        and tm = "[[(''mac'', PStr ''aa:bb''), (''vlan'', PInt 42)],
                          [(''mac'', PStr ''cc:dd''), (''vlan'', PInt 7)]]"
        and interface = "PStr []" and address = "PStr []" and vlan = "PInt 0"]
  by (simp add: scripted_def filter_list_eq dict_get_def)

end
